theory Spec2Isabelle
  imports Main "HOL-Library.Word" "HOL-Library.More_List"
begin

section \<open>PKCS #11 PAL for the OPTIGA Trust X secure element\<close>

text \<open>
  A shallow embedding of \<^verbatim>\<open>lib/pkcs11/portable/infineon/optiga_trust_x/aws_pkcs11_pal.c\<close>:
  \<^verbatim>\<open>PKCS11_PAL_SaveObject\<close>, \<^verbatim>\<open>PKCS11_PAL_FindObject\<close> and
  \<^verbatim>\<open>PKCS11_PAL_GetObjectValue\<close>. The secure element, the allocator and the label
  macros of \<^verbatim>\<open>aws_pkcs11_config.h\<close> are outside the file and enter as parameters.
\<close>

subsection \<open>C types and constants\<close>

type_synonym uint8_t = "8 word"
type_synonym uint16_t = "16 word"
type_synonym uint32_t = "32 word"

text \<open>\<^verbatim>\<open>CK_OBJECT_HANDLE\<close> and \<^verbatim>\<open>CK_RV\<close> are \<^verbatim>\<open>unsigned long\<close>, 32 bits on the
  Cortex-M targets of this port; \<^verbatim>\<open>CK_BBOOL\<close> is a byte.\<close>

type_synonym CK_OBJECT_HANDLE = "32 word"
type_synonym CK_RV = "32 word"
type_synonym CK_BBOOL = "8 word"

text \<open>A pointer to bytes is read by offset: \<open>p i\<close> is the byte \<^verbatim>\<open>p[i]\<close>.\<close>

type_synonym char_ptr = "nat \<Rightarrow> char"

definition NUL :: char where
  "NUL = CHR 0x00"

definition USHRT_MAX :: int where
  "USHRT_MAX = 65535"

definition LONG_MAX :: int where
  "LONG_MAX = 2147483647"

definition LONG_MIN :: int where
  "LONG_MIN = - 2147483648"

definition pkcs11OBJECT_CERTIFICATE_MAX_SIZE :: uint32_t where
  "pkcs11OBJECT_CERTIFICATE_MAX_SIZE = 2048"

text \<open>\<^verbatim>\<open>enum eObjectHandles\<close>.\<close>

definition eInvalidHandle :: CK_OBJECT_HANDLE where
  "eInvalidHandle = 0"

definition eAwsDevicePrivateKey :: CK_OBJECT_HANDLE where
  "eAwsDevicePrivateKey = 1"

definition eAwsDevicePublicKey :: CK_OBJECT_HANDLE where
  "eAwsDevicePublicKey = 2"

definition eAwsDeviceCertificate :: CK_OBJECT_HANDLE where
  "eAwsDeviceCertificate = 3"

definition eAwsCodeSigningKey :: CK_OBJECT_HANDLE where
  "eAwsCodeSigningKey = 4"

text \<open>Return codes and booleans of the PKCS #11 standard header.\<close>

definition CKR_OK :: CK_RV where
  "CKR_OK = 0"

definition CKR_KEY_HANDLE_INVALID :: CK_RV where
  "CKR_KEY_HANDLE_INVALID = 0x60"

definition CK_FALSE :: CK_BBOOL where
  "CK_FALSE = 0"

subsection \<open>The label configuration\<close>

text \<open>The four label macros are string literals of the missing configuration header. A
  field holds the characters of the literal, without the terminator.\<close>

record pkcs11_config =
  pkcs11configLABEL_DEVICE_CERTIFICATE_FOR_TLS :: string
  pkcs11configLABEL_DEVICE_PRIVATE_KEY_FOR_TLS :: string
  pkcs11configLABEL_DEVICE_PUBLIC_KEY_FOR_TLS :: string
  pkcs11configLABEL_CODE_VERIFICATION_KEY :: string

text \<open>The array a string literal denotes, and its \<^verbatim>\<open>sizeof\<close>: the terminator counts.\<close>

definition literal :: "string \<Rightarrow> char list" where
  "literal s = s @ [NUL]"

definition sizeof :: "string \<Rightarrow> nat" where
  "sizeof s = length s + 1"

subsection \<open>C library: memcmp and strtol\<close>

fun bytes_cmp :: "char list \<Rightarrow> char list \<Rightarrow> int" where
  "bytes_cmp (a # as) (b # bs) =
     (if a = b then bytes_cmp as bs
      else if (of_char a :: nat) < of_char b then - 1 else 1)"
| "bytes_cmp _ _ = 0"

text \<open>\<^verbatim>\<open>memcmp(s1, s2, n)\<close> compares the first \<open>n\<close> bytes at \<open>s1\<close> with the first
  \<open>n\<close> bytes of the array \<open>s2\<close>.\<close>

definition memcmp :: "char_ptr \<Rightarrow> char list \<Rightarrow> nat \<Rightarrow> int" where
  "memcmp s1 s2 n = bytes_cmp (map s1 [0..<n]) (take n s2)"

definition isspace :: "char \<Rightarrow> bool" where
  "isspace c \<longleftrightarrow>
     c = CHR '' '' \<or> c = CHR 0x09 \<or> c = CHR 0x0A \<or> c = CHR 0x0B \<or> c = CHR 0x0C \<or> c = CHR 0x0D"

definition digit_value :: "char \<Rightarrow> nat option" where
  "digit_value c =
     (let k = (of_char c :: nat) in
      if 48 \<le> k \<and> k \<le> 57 then Some (k - 48)
      else if 97 \<le> k \<and> k \<le> 122 then Some (k - 87)
      else if 65 \<le> k \<and> k \<le> 90 then Some (k - 55)
      else None)"

definition is_digit :: "nat \<Rightarrow> char \<Rightarrow> bool" where
  "is_digit base c = (case digit_value c of Some d \<Rightarrow> d < base | None \<Rightarrow> False)"

fun digits_value :: "nat \<Rightarrow> string \<Rightarrow> nat \<Rightarrow> nat" where
  "digits_value base [] acc = acc"
| "digits_value base (c # cs) acc =
     (case digit_value c of
        Some d \<Rightarrow> if d < base then digits_value base cs (acc * base + d) else acc
      | None \<Rightarrow> acc)"

text \<open>\<^verbatim>\<open>strtol(nptr, &end, base)\<close> for a base from 2 to 36, on the characters before
  the terminator: white space, an optional sign, for base 16 an optional \<^verbatim>\<open>0x\<close>, then
  the longest run of digits; no digits give 0, and the value is clamped to \<^verbatim>\<open>long\<close>.
  The end pointer is never read by the callers.\<close>

definition strtol :: "string \<Rightarrow> nat \<Rightarrow> int" where
  "strtol nptr base =
     (let s0 = dropWhile isspace nptr;
          neg = (case s0 of c # _ \<Rightarrow> c = CHR ''-'' | [] \<Rightarrow> False);
          s1 = (case s0 of c # cs \<Rightarrow> if c = CHR ''-'' \<or> c = CHR ''+'' then cs else s0
                | [] \<Rightarrow> s0);
          s2 = (case s1 of
                  z # x # d # _ \<Rightarrow>
                    if base = 16 \<and> z = CHR ''0'' \<and> (x = CHR ''x'' \<or> x = CHR ''X'') \<and> is_digit base d
                    then drop 2 s1 else s1
                | _ \<Rightarrow> s1);
          v = int (digits_value base s2 0)
      in if neg then max LONG_MIN (- v) else min LONG_MAX v)"

subsection \<open>The secure element and the world the PAL runs in\<close>

type_synonym optiga_lib_status_t = "16 word"

text \<open>Modelled from the spec: the return codes of the OPTIGA library are not in the
  sources; the spec calls every nonzero status a failure, so success is 0.\<close>

definition OPTIGA_LIB_SUCCESS :: optiga_lib_status_t where
  "OPTIGA_LIB_SUCCESS = 0"

datatype write_type = OPTIGA_UTIL_ERASE_AND_WRITE | OPTIGA_UTIL_WRITE_ONLY

text \<open>Modelled from the spec: the access layer \<^verbatim>\<open>optiga_util\<close> is an external
  collaborator. Its two entry points are parameters over a device state \<open>'d\<close>:
  \<open>write_data d location mode offset data length\<close> gives a status and the next state;
  \<open>read_data d location offset buffer length\<close> gives a status, the buffer and the
  length cell as the call leaves them, and the next state.\<close>

record 'd optiga_util =
  write_data :: "'d \<Rightarrow> uint16_t \<Rightarrow> write_type \<Rightarrow> uint8_t \<Rightarrow> uint8_t list \<Rightarrow> uint32_t
                 \<Rightarrow> optiga_lib_status_t \<times> 'd"
  read_data :: "'d \<Rightarrow> uint16_t \<Rightarrow> uint8_t \<Rightarrow> uint8_t list \<Rightarrow> uint32_t
                 \<Rightarrow> optiga_lib_status_t \<times> uint8_t list \<times> uint32_t \<times> 'd"

text \<open>Every command sent to the secure element is logged with the status it returned.\<close>

datatype command =
    Write_cmd uint16_t write_type uint8_t "uint8_t list" uint32_t optiga_lib_status_t
  | Read_cmd uint16_t uint8_t uint32_t optiga_lib_status_t

record 'd world =
  device :: 'd
  issued :: "command list"

definition optiga_util_write_data ::
  "'d optiga_util \<Rightarrow> uint16_t \<Rightarrow> write_type \<Rightarrow> uint8_t \<Rightarrow> uint8_t list \<Rightarrow> uint32_t
   \<Rightarrow> 'd world \<Rightarrow> optiga_lib_status_t \<times> 'd world" where
  "optiga_util_write_data u oid mode offset p_buffer n w =
     (let (st, d) = write_data u (device w) oid mode offset p_buffer n
      in (st, \<lparr>device = d, issued = issued w @ [Write_cmd oid mode offset p_buffer n st]\<rparr>))"

definition optiga_util_read_data ::
  "'d optiga_util \<Rightarrow> uint16_t \<Rightarrow> uint8_t \<Rightarrow> uint8_t list \<Rightarrow> uint32_t
   \<Rightarrow> 'd world \<Rightarrow> optiga_lib_status_t \<times> uint8_t list \<times> uint32_t \<times> 'd world" where
  "optiga_util_read_data u oid offset p_buffer n w =
     (let (st, buf, len, d) = read_data u (device w) oid offset p_buffer n
      in (st, buf, len, \<lparr>device = d, issued = issued w @ [Read_cmd oid offset n st]\<rparr>))"

subsection \<open>PKCS11\_PAL\_FindObject\<close>

text \<open>The length argument is never read. The world is passed through unchanged: the
  function calls nothing outside \<^verbatim>\<open>memcmp\<close>.\<close>

definition PKCS11_PAL_FindObject ::
  "pkcs11_config \<Rightarrow> char_ptr \<Rightarrow> uint8_t \<Rightarrow> 'd world \<Rightarrow> CK_OBJECT_HANDLE \<times> 'd world" where
  "PKCS11_PAL_FindObject cfg pLabel usLength w =
     (if 0 = memcmp pLabel (literal (pkcs11configLABEL_DEVICE_CERTIFICATE_FOR_TLS cfg))
               (sizeof (pkcs11configLABEL_DEVICE_CERTIFICATE_FOR_TLS cfg))
      then (eAwsDeviceCertificate, w)
      else if 0 = memcmp pLabel (literal (pkcs11configLABEL_DEVICE_PRIVATE_KEY_FOR_TLS cfg))
               (sizeof (pkcs11configLABEL_DEVICE_PRIVATE_KEY_FOR_TLS cfg))
      then (eAwsDevicePrivateKey, w)
      else if 0 = memcmp pLabel (literal (pkcs11configLABEL_DEVICE_PUBLIC_KEY_FOR_TLS cfg))
               (sizeof (pkcs11configLABEL_DEVICE_PUBLIC_KEY_FOR_TLS cfg))
      then (eAwsDevicePublicKey, w)
      else if 0 = memcmp pLabel (literal (pkcs11configLABEL_CODE_VERIFICATION_KEY cfg))
               (sizeof (pkcs11configLABEL_CODE_VERIFICATION_KEY cfg))
      then (eAwsCodeSigningKey, w)
      else (eInvalidHandle, w))"

subsection \<open>PKCS11\_PAL\_SaveObject\<close>

text \<open>\<^verbatim>\<open>CK_ATTRIBUTE\<close> of the PKCS #11 header; only \<open>pValue\<close> is read.\<close>

record CK_ATTRIBUTE =
  attr_type :: "32 word"
  pValue :: char_ptr
  ulValueLen :: "32 word"

text \<open>\<open>pucData\<close> is the caller's buffer and \<open>ulDataSize\<close> the size passed with it.
  The first branch whose \<^verbatim>\<open>memcmp\<close> is 0 is taken. The certificate and the code
  verification key compare with \<^verbatim>\<open>USHRT_MAX >\<close>, the public key with
  \<^verbatim>\<open>USHRT_MAX >=\<close>, as the source has them.\<close>

definition PKCS11_PAL_SaveObject ::
  "'d optiga_util \<Rightarrow> pkcs11_config \<Rightarrow> CK_ATTRIBUTE \<Rightarrow> uint8_t list \<Rightarrow> uint32_t \<Rightarrow> 'd world
   \<Rightarrow> CK_OBJECT_HANDLE \<times> 'd world" where
  "PKCS11_PAL_SaveObject u cfg pxLabel pucData ulDataSize w =
     (let bOffset = 0 in
      if ulDataSize \<le> pkcs11OBJECT_CERTIFICATE_MAX_SIZE then
        if 0 = memcmp (pValue pxLabel) (literal (pkcs11configLABEL_DEVICE_CERTIFICATE_FOR_TLS cfg))
                 (sizeof (pkcs11configLABEL_DEVICE_CERTIFICATE_FOR_TLS cfg))
        then
          (let lOptigaOid = strtol (pkcs11configLABEL_DEVICE_CERTIFICATE_FOR_TLS cfg) 16 in
           if 0 \<noteq> lOptigaOid \<and> USHRT_MAX > lOptigaOid \<and> USHRT_MAX > uint ulDataSize then
             (let (xReturn, w') =
                    optiga_util_write_data u (word_of_int lOptigaOid) OPTIGA_UTIL_ERASE_AND_WRITE
                      bOffset pucData ulDataSize w
              in (if OPTIGA_LIB_SUCCESS = xReturn then eAwsDeviceCertificate else eInvalidHandle, w'))
           else (eInvalidHandle, w))
        else if 0 = memcmp (pValue pxLabel) (literal (pkcs11configLABEL_DEVICE_PRIVATE_KEY_FOR_TLS cfg))
                      (sizeof (pkcs11configLABEL_DEVICE_PRIVATE_KEY_FOR_TLS cfg))
        then (eAwsDevicePrivateKey, w)
        else if 0 = memcmp (pValue pxLabel) (literal (pkcs11configLABEL_DEVICE_PUBLIC_KEY_FOR_TLS cfg))
                      (sizeof (pkcs11configLABEL_DEVICE_PUBLIC_KEY_FOR_TLS cfg))
        then
          (let lOptigaOid = strtol (pkcs11configLABEL_DEVICE_PUBLIC_KEY_FOR_TLS cfg) 16 in
           if 0 \<noteq> lOptigaOid \<and> USHRT_MAX \<ge> lOptigaOid \<and> USHRT_MAX \<ge> uint ulDataSize then
             (let (xReturn, w') =
                    optiga_util_write_data u (word_of_int lOptigaOid) OPTIGA_UTIL_ERASE_AND_WRITE
                      bOffset pucData ulDataSize w
              in (if OPTIGA_LIB_SUCCESS = xReturn then eAwsDevicePublicKey else eInvalidHandle, w'))
           else (eInvalidHandle, w))
        else if 0 = memcmp (pValue pxLabel) (literal (pkcs11configLABEL_CODE_VERIFICATION_KEY cfg))
                      (sizeof (pkcs11configLABEL_CODE_VERIFICATION_KEY cfg))
        then
          (let lOptigaOid = strtol (pkcs11configLABEL_CODE_VERIFICATION_KEY cfg) 16 in
           if 0 \<noteq> lOptigaOid \<and> USHRT_MAX > lOptigaOid \<and> USHRT_MAX > uint ulDataSize then
             (let (xReturn, w') =
                    optiga_util_write_data u (word_of_int lOptigaOid) OPTIGA_UTIL_ERASE_AND_WRITE
                      bOffset pucData ulDataSize w
              in (if OPTIGA_LIB_SUCCESS = xReturn then eAwsCodeSigningKey else eInvalidHandle, w'))
           else (eInvalidHandle, w))
        else (eInvalidHandle, w)
      else (eInvalidHandle, w))"

subsection \<open>PKCS11\_PAL\_GetObjectValue\<close>

text \<open>The three output cells. \<open>ppucData\<close> is \<open>None\<close> for a null pointer and otherwise
  holds the bytes of the block it points to.\<close>

record object_value =
  ppucData :: "uint8_t list option"
  pulDataSize :: uint32_t
  pIsPrivate :: CK_BBOOL

text \<open>\<open>pvPortMalloc\<close> is the allocator of the port: \<open>None\<close> when it returns null,
  otherwise the fresh block with whatever bytes it holds. The outputs are written before
  the \<^verbatim>\<open>switch\<close>; the test \<^verbatim>\<open>NULL != pulDataSize\<close> holds, the cell having been
  written already.\<close>

definition PKCS11_PAL_GetObjectValue ::
  "'d optiga_util \<Rightarrow> pkcs11_config \<Rightarrow> (nat \<Rightarrow> uint8_t list option) \<Rightarrow> CK_OBJECT_HANDLE
   \<Rightarrow> 'd world \<Rightarrow> CK_RV \<times> object_value \<times> 'd world" where
  "PKCS11_PAL_GetObjectValue u cfg pvPortMalloc xHandle w =
     (let xOffset = 0;
          out = \<lparr>ppucData = pvPortMalloc 1200, pulDataSize = 1200, pIsPrivate = CK_FALSE\<rparr>;
          (lOptigaOid, ulReturn) =
            (if xHandle = eAwsDeviceCertificate
               then (strtol (pkcs11configLABEL_DEVICE_CERTIFICATE_FOR_TLS cfg) 16, CKR_OK)
             else if xHandle = eAwsDevicePublicKey
               then (strtol (pkcs11configLABEL_DEVICE_PUBLIC_KEY_FOR_TLS cfg) 16, CKR_OK)
             else if xHandle = eAwsCodeSigningKey
               then (strtol (pkcs11configLABEL_CODE_VERIFICATION_KEY cfg) 16, CKR_OK)
             else (0, CKR_KEY_HANDLE_INVALID))
      in case ppucData out of
           None \<Rightarrow> (ulReturn, out, w)
         | Some buf \<Rightarrow>
             if 0 \<noteq> lOptigaOid \<and> USHRT_MAX > lOptigaOid then
               (let (xReturn, buf', len', w') =
                      optiga_util_read_data u (word_of_int lOptigaOid) xOffset buf (pulDataSize out) w
                in if OPTIGA_LIB_SUCCESS \<noteq> xReturn
                   then (CKR_KEY_HANDLE_INVALID, out\<lparr>ppucData := None, pulDataSize := 0\<rparr>, w')
                   else (ulReturn, out\<lparr>ppucData := Some buf', pulDataSize := len'\<rparr>, w'))
             else (ulReturn, out, w))"

subsection \<open>A concrete configuration and a concrete secure element\<close>

text \<open>Labels that name OPTIGA Trust X object ids, as the comments of the source suggest
  (\<^verbatim>\<open>e.g. E0E8\<close>).\<close>

definition example_config :: pkcs11_config where
  "example_config =
     \<lparr>pkcs11configLABEL_DEVICE_CERTIFICATE_FOR_TLS = ''0xE0E8'',
      pkcs11configLABEL_DEVICE_PRIVATE_KEY_FOR_TLS = ''0xE0F0'',
      pkcs11configLABEL_DEVICE_PUBLIC_KEY_FOR_TLS = ''0xF1D0'',
      pkcs11configLABEL_CODE_VERIFICATION_KEY = ''0xE0EF''\<rparr>"

text \<open>The memory a caller's label pointer sees: the characters, the terminator, then
  zero bytes.\<close>

definition label_ptr :: "string \<Rightarrow> char_ptr" where
  "label_ptr s = nth_default NUL (literal s)"

definition label_attr :: "string \<Rightarrow> CK_ATTRIBUTE" where
  "label_attr s = \<lparr>attr_type = 3, pValue = label_ptr s, ulValueLen = of_nat (sizeof s)\<rparr>"

text \<open>A secure element that stores what is written and reads it back, cut to the buffer
  it is given; a location never written reads with an error.\<close>

type_synonym store = "uint16_t \<Rightarrow> uint8_t list option"

definition store_device :: "store optiga_util" where
  "store_device =
     \<lparr>write_data = (\<lambda>d oid mode offset dat n. (OPTIGA_LIB_SUCCESS, d(oid \<mapsto> take (unat n) dat))),
      read_data = (\<lambda>d oid offset buf n.
         case d oid of
           None \<Rightarrow> (1, buf, n, d)
         | Some dat \<Rightarrow>
             (OPTIGA_LIB_SUCCESS,
              take (unat n) dat @ drop (length (take (unat n) dat)) buf,
              of_nat (length (take (unat n) dat)), d))\<rparr>"

text \<open>A secure element on which every command fails.\<close>

definition failing_device :: "unit optiga_util" where
  "failing_device =
     \<lparr>write_data = (\<lambda>d oid mode offset dat n. (0x0001, d)),
      read_data = (\<lambda>d oid offset buf n. (0x0001, buf, n, d))\<rparr>"

definition world0 :: "'d \<Rightarrow> 'd world" where
  "world0 d = \<lparr>device = d, issued = []\<rparr>"

subsection \<open>Labels in the caller's memory\<close>

text \<open>\<open>points_to p s\<close>: the memory at \<open>p\<close> starts with the array of the literal
  \<open>s\<close>, terminator included. \<open>labels_wf\<close>: the four configured labels are different
  strings, none with an embedded terminator.\<close>

definition points_to :: "char_ptr \<Rightarrow> string \<Rightarrow> bool" where
  "points_to p s \<longleftrightarrow> map p [0..<sizeof s] = literal s"

definition labels_wf :: "pkcs11_config \<Rightarrow> bool" where
  "labels_wf cfg \<longleftrightarrow>
     distinct [pkcs11configLABEL_DEVICE_CERTIFICATE_FOR_TLS cfg,
               pkcs11configLABEL_DEVICE_PRIVATE_KEY_FOR_TLS cfg,
               pkcs11configLABEL_DEVICE_PUBLIC_KEY_FOR_TLS cfg,
               pkcs11configLABEL_CODE_VERIFICATION_KEY cfg] \<and>
     NUL \<notin> set (pkcs11configLABEL_DEVICE_CERTIFICATE_FOR_TLS cfg) \<and>
     NUL \<notin> set (pkcs11configLABEL_DEVICE_PRIVATE_KEY_FOR_TLS cfg) \<and>
     NUL \<notin> set (pkcs11configLABEL_DEVICE_PUBLIC_KEY_FOR_TLS cfg) \<and>
     NUL \<notin> set (pkcs11configLABEL_CODE_VERIFICATION_KEY cfg)"

subsection \<open>Assumption on the secure element, and further configurations\<close>

text \<open>\<open>reads_back_last_write u\<close>: after an erase-and-write at offset 0 that returned
  success, a read of the same location at offset 0 succeeds and delivers the bytes written,
  cut to the capacity passed in the length cell; the length cell then holds the number of
  bytes delivered.\<close>

definition reads_back_last_write :: "'d optiga_util \<Rightarrow> bool" where
  "reads_back_last_write u \<longleftrightarrow>
     (\<forall>d oid dat n d' buf cap.
        write_data u d oid OPTIGA_UTIL_ERASE_AND_WRITE 0 dat n = (OPTIGA_LIB_SUCCESS, d') \<longrightarrow>
        (\<exists>buf' d''.
           read_data u d' oid 0 buf cap =
             (OPTIGA_LIB_SUCCESS, buf', of_nat (min (unat cap) (length (take (unat n) dat))), d'') \<and>
           take (min (unat cap) (length (take (unat n) dat))) buf' =
             take (unat cap) (take (unat n) dat)))"

text \<open>Two configurations with a label that parses to \<^verbatim>\<open>0xFFFF\<close>, the largest
  16-bit location.\<close>

definition config_certificate_ffff :: pkcs11_config where
  "config_certificate_ffff =
     example_config\<lparr>pkcs11configLABEL_DEVICE_CERTIFICATE_FOR_TLS := ''0xFFFF''\<rparr>"

definition config_public_key_ffff :: pkcs11_config where
  "config_public_key_ffff =
     example_config\<lparr>pkcs11configLABEL_DEVICE_PUBLIC_KEY_FOR_TLS := ''0xFFFF''\<rparr>"

section \<open>Properties\<close>

subsection \<open>Comparing labels\<close>

lemma bytes_cmp_eq0: "length xs = length ys \<Longrightarrow> bytes_cmp xs ys = 0 \<longleftrightarrow> xs = ys"
  by (induction xs ys rule: bytes_cmp.induct) auto

lemma memcmp_literal: "0 = memcmp p (literal s) (sizeof s) \<longleftrightarrow> points_to p s"
proof -
  have t: "take (sizeof s) (literal s) = literal s"
    by (simp add: literal_def sizeof_def)
  have "(0 = memcmp p (literal s) (sizeof s)) = (bytes_cmp (map p [0..<sizeof s]) (literal s) = 0)"
    unfolding memcmp_def t by (rule eq_commute)
  also have "\<dots> = (map p [0..<sizeof s] = literal s)"
    by (rule bytes_cmp_eq0) (simp add: literal_def sizeof_def)
  finally show ?thesis
    by (simp only: points_to_def)
qed

lemma map_upt_eq_iff: "map p [0..<length s] = s \<longleftrightarrow> (\<forall>i < length s. p i = s ! i)"
proof
  assume h: "map p [0..<length s] = s"
  show "\<forall>i < length s. p i = s ! i"
  proof (intro allI impI)
    fix i assume "i < length s"
    then have "map p [0..<length s] ! i = p i" by simp
    with h show "p i = s ! i" by simp
  qed
next
  assume "\<forall>i < length s. p i = s ! i"
  then show "map p [0..<length s] = s"
    by (intro nth_equalityI) simp_all
qed

lemma points_to_nth:
  "points_to p s \<longleftrightarrow> (\<forall>i < length s. p i = s ! i) \<and> p (length s) = NUL"
proof -
  have "points_to p s \<longleftrightarrow> map p [0..<length s] @ [p (length s)] = s @ [NUL]"
    by (simp add: points_to_def literal_def sizeof_def)
  also have "\<dots> \<longleftrightarrow> map p [0..<length s] = s \<and> p (length s) = NUL"
    by simp
  finally show ?thesis
    by (simp only: map_upt_eq_iff)
qed

lemma points_to_unique:
  assumes a: "points_to p a" and b: "points_to p b"
    and na: "NUL \<notin> set a" and nb: "NUL \<notin> set b"
  shows "a = b"
proof -
  have len: "length a = length b"
  proof (rule ccontr)
    assume "length a \<noteq> length b"
    then consider "length a < length b" | "length b < length a" by linarith
    then show False
    proof cases
      case 1
      with a b have "b ! length a = NUL" by (simp add: points_to_nth)
      with 1 nb show False by (metis nth_mem)
    next
      case 2
      with a b have "a ! length b = NUL" by (simp add: points_to_nth)
      with 2 na show False by (metis nth_mem)
    qed
  qed
  with a b show ?thesis by (simp add: points_to_nth list_eq_iff_nth_eq)
qed

lemma points_to_label_ptr: "points_to (label_ptr s) s"
  by (simp add: points_to_nth label_ptr_def literal_def nth_default_def nth_append)

lemma FindObject_points_to:
  "PKCS11_PAL_FindObject cfg pLabel usLength w =
     (if points_to pLabel (pkcs11configLABEL_DEVICE_CERTIFICATE_FOR_TLS cfg) then (eAwsDeviceCertificate, w)
      else if points_to pLabel (pkcs11configLABEL_DEVICE_PRIVATE_KEY_FOR_TLS cfg) then (eAwsDevicePrivateKey, w)
      else if points_to pLabel (pkcs11configLABEL_DEVICE_PUBLIC_KEY_FOR_TLS cfg) then (eAwsDevicePublicKey, w)
      else if points_to pLabel (pkcs11configLABEL_CODE_VERIFICATION_KEY cfg) then (eAwsCodeSigningKey, w)
      else (eInvalidHandle, w))"
  by (simp add: PKCS11_PAL_FindObject_def memcmp_literal)

lemma example_config_wf: "labels_wf example_config"
  by (simp add: labels_wf_def example_config_def NUL_def)


subsection \<open>Evaluating the entry points\<close>

lemma SaveObject_points_to:
  "PKCS11_PAL_SaveObject u cfg pxLabel pucData ulDataSize w =
     (if ulDataSize \<le> pkcs11OBJECT_CERTIFICATE_MAX_SIZE then
        if points_to (pValue pxLabel) (pkcs11configLABEL_DEVICE_CERTIFICATE_FOR_TLS cfg) then
          (let lOptigaOid = strtol (pkcs11configLABEL_DEVICE_CERTIFICATE_FOR_TLS cfg) 16 in
           if 0 \<noteq> lOptigaOid \<and> USHRT_MAX > lOptigaOid \<and> USHRT_MAX > uint ulDataSize then
             (let (xReturn, w') =
                    optiga_util_write_data u (word_of_int lOptigaOid) OPTIGA_UTIL_ERASE_AND_WRITE
                      0 pucData ulDataSize w
              in (if OPTIGA_LIB_SUCCESS = xReturn then eAwsDeviceCertificate else eInvalidHandle, w'))
           else (eInvalidHandle, w))
        else if points_to (pValue pxLabel) (pkcs11configLABEL_DEVICE_PRIVATE_KEY_FOR_TLS cfg)
        then (eAwsDevicePrivateKey, w)
        else if points_to (pValue pxLabel) (pkcs11configLABEL_DEVICE_PUBLIC_KEY_FOR_TLS cfg) then
          (let lOptigaOid = strtol (pkcs11configLABEL_DEVICE_PUBLIC_KEY_FOR_TLS cfg) 16 in
           if 0 \<noteq> lOptigaOid \<and> USHRT_MAX \<ge> lOptigaOid \<and> USHRT_MAX \<ge> uint ulDataSize then
             (let (xReturn, w') =
                    optiga_util_write_data u (word_of_int lOptigaOid) OPTIGA_UTIL_ERASE_AND_WRITE
                      0 pucData ulDataSize w
              in (if OPTIGA_LIB_SUCCESS = xReturn then eAwsDevicePublicKey else eInvalidHandle, w'))
           else (eInvalidHandle, w))
        else if points_to (pValue pxLabel) (pkcs11configLABEL_CODE_VERIFICATION_KEY cfg) then
          (let lOptigaOid = strtol (pkcs11configLABEL_CODE_VERIFICATION_KEY cfg) 16 in
           if 0 \<noteq> lOptigaOid \<and> USHRT_MAX > lOptigaOid \<and> USHRT_MAX > uint ulDataSize then
             (let (xReturn, w') =
                    optiga_util_write_data u (word_of_int lOptigaOid) OPTIGA_UTIL_ERASE_AND_WRITE
                      0 pucData ulDataSize w
              in (if OPTIGA_LIB_SUCCESS = xReturn then eAwsCodeSigningKey else eInvalidHandle, w'))
           else (eInvalidHandle, w))
        else (eInvalidHandle, w)
      else (eInvalidHandle, w))"
  unfolding PKCS11_PAL_SaveObject_def memcmp_literal Let_def ..

lemma write_data_issued:
  "optiga_util_write_data u oid mode off dat n w = (st, w') \<Longrightarrow>
   write_data u (device w) oid mode off dat n = (st, device w') \<and>
   issued w' = issued w @ [Write_cmd oid mode off dat n st]"
  by (auto simp: optiga_util_write_data_def split: prod.splits)

lemma read_data_issued:
  "optiga_util_read_data u oid off buf n w = (st, buf', len, w') \<Longrightarrow>
   read_data u (device w) oid off buf n = (st, buf', len, device w') \<and>
   issued w' = issued w @ [Read_cmd oid off n st]"
  by (auto simp: optiga_util_read_data_def split: prod.splits)

lemma SaveObject_write_failed:
  assumes "PKCS11_PAL_SaveObject u cfg pxLabel pucData ulDataSize w = (h, w')"
    and "issued w' = issued w @ [Write_cmd oid mode off dat n st]"
    and "st \<noteq> 0"
  shows "h = eInvalidHandle"
  using assms
  by (auto simp: SaveObject_points_to Let_def OPTIGA_LIB_SUCCESS_def
      split: if_splits prod.splits dest!: write_data_issued)

lemma GetObjectValue_read_failed:
  assumes "PKCS11_PAL_GetObjectValue u cfg pvPortMalloc xHandle w = (rv, out, w')"
    and "issued w' = issued w @ [Read_cmd oid off n st]"
    and "st \<noteq> 0"
  shows "rv = CKR_KEY_HANDLE_INVALID \<and> ppucData out = None \<and> pulDataSize out = 0"
  using assms
  by (auto simp: PKCS11_PAL_GetObjectValue_def Let_def OPTIGA_LIB_SUCCESS_def
      split: if_splits prod.splits option.splits dest!: read_data_issued)

lemma SaveObject_certificateD:
  assumes "PKCS11_PAL_SaveObject u cfg pxLabel pucData ulDataSize w = (eAwsDeviceCertificate, w')"
  shows "0 \<noteq> strtol (pkcs11configLABEL_DEVICE_CERTIFICATE_FOR_TLS cfg) 16 \<and>
         USHRT_MAX > strtol (pkcs11configLABEL_DEVICE_CERTIFICATE_FOR_TLS cfg) 16 \<and>
         write_data u (device w)
           (word_of_int (strtol (pkcs11configLABEL_DEVICE_CERTIFICATE_FOR_TLS cfg) 16))
           OPTIGA_UTIL_ERASE_AND_WRITE 0 pucData ulDataSize = (OPTIGA_LIB_SUCCESS, device w')"
  using assms
  by (auto simp: SaveObject_points_to Let_def eAwsDeviceCertificate_def eInvalidHandle_def
      eAwsDevicePrivateKey_def eAwsDevicePublicKey_def eAwsCodeSigningKey_def
      split: if_splits prod.splits dest!: write_data_issued)

lemma store_device_reads_back: "reads_back_last_write store_device"
  unfolding reads_back_last_write_def
proof (intro allI impI)
  fix d :: store and oid dat n d' buf and cap :: uint32_t
  assume w: "write_data store_device d oid OPTIGA_UTIL_ERASE_AND_WRITE 0 dat n =
      (OPTIGA_LIB_SUCCESS, d')"
  define p where "p = take (unat n) dat"
  define q where "q = take (unat cap) p"
  from w have d': "d' = d(oid \<mapsto> p)"
    by (simp add: store_device_def p_def)
  have rd: "read_data store_device d' oid 0 buf cap =
      (OPTIGA_LIB_SUCCESS, q @ drop (length q) buf, of_nat (length q), d')"
    by (simp add: store_device_def d' q_def)
  have len: "length q = min (unat cap) (length p)"
    by (simp add: q_def min.commute)
  have "take (length q) (q @ drop (length q) buf) = q"
    by simp
  with rd show "\<exists>buf' d''.
      read_data store_device d' oid 0 buf cap =
        (OPTIGA_LIB_SUCCESS, buf', of_nat (min (unat cap) (length (take (unat n) dat))), d'') \<and>
      take (min (unat cap) (length (take (unat n) dat))) buf' =
        take (unat cap) (take (unat n) dat)"
    unfolding len p_def [symmetric] q_def [symmetric]
    by (intro exI conjI) (simp_all only: len [symmetric])
qed

lemma strtol_ffff: "strtol ''0xFFFF'' 16 = 65535"
  by (simp add: strtol_def isspace_def is_digit_def digit_value_def LONG_MAX_def)

lemma strtol_e0e8: "strtol ''0xE0E8'' 16 = 57576"
  by (simp add: strtol_def isspace_def is_digit_def digit_value_def LONG_MAX_def)

lemma ffff_not_configured:
  "\<not> points_to (label_ptr ''0xFFFF'') ''0xE0E8''"
  "\<not> points_to (label_ptr ''0xFFFF'') ''0xE0F0''"
  by code_simp+

lemma save_certificate_store_device:
  "PKCS11_PAL_SaveObject store_device example_config (label_attr ''0xE0E8'') [1, 2, 3] 3
     (world0 Map.empty) =
     (eAwsDeviceCertificate,
      \<lparr>device = [0xE0E8 \<mapsto> [1, 2, 3]],
       issued = [Write_cmd 0xE0E8 OPTIGA_UTIL_ERASE_AND_WRITE 0 [1, 2, 3] 3 OPTIGA_LIB_SUCCESS]\<rparr>)"
  by (simp add: SaveObject_points_to example_config_def label_attr_def points_to_label_ptr
      strtol_e0e8 USHRT_MAX_def pkcs11OBJECT_CERTIFICATE_MAX_SIZE_def optiga_util_write_data_def
      store_device_def world0_def)

lemma save_certificate_failing_device:
  "PKCS11_PAL_SaveObject failing_device example_config (label_attr ''0xE0E8'') [1, 2, 3] 3
     (world0 ()) =
     (eInvalidHandle,
      \<lparr>device = (), issued = [Write_cmd 0xE0E8 OPTIGA_UTIL_ERASE_AND_WRITE 0 [1, 2, 3] 3 1]\<rparr>)"
  by (simp add: SaveObject_points_to example_config_def label_attr_def points_to_label_ptr
      strtol_e0e8 USHRT_MAX_def pkcs11OBJECT_CERTIFICATE_MAX_SIZE_def optiga_util_write_data_def
      failing_device_def world0_def OPTIGA_LIB_SUCCESS_def)

lemma get_certificate_failing_device:
  "PKCS11_PAL_GetObjectValue failing_device example_config (\<lambda>n. Some (replicate n 0))
     eAwsDeviceCertificate (world0 ()) =
     (CKR_KEY_HANDLE_INVALID, \<lparr>ppucData = None, pulDataSize = 0, pIsPrivate = CK_FALSE\<rparr>,
      \<lparr>device = (), issued = [Read_cmd 0xE0E8 0 1200 1]\<rparr>)"
  by (simp add: PKCS11_PAL_GetObjectValue_def example_config_def
      strtol_e0e8 USHRT_MAX_def optiga_util_read_data_def
      failing_device_def world0_def OPTIGA_LIB_SUCCESS_def)

subsection \<open>FindObject\<close>

text \<open>C3. With four different configured labels, a pointer to a configured label is
  mapped to the handle of that label, and the handle is not 0: the certificate label to
  \<open>eAwsDeviceCertificate\<close>, the private key label to \<open>eAwsDevicePrivateKey\<close>, the public
  key label to \<open>eAwsDevicePublicKey\<close>, the code verification label to
  \<open>eAwsCodeSigningKey\<close>. A pointer to bytes that match none of the four is mapped to
  \<open>eInvalidHandle\<close>. In every case the world is returned as it was: no command is sent to
  the secure element.\<close>

theorem FindObject_table:
  assumes wf: "labels_wf cfg"
  shows "(points_to pLabel (pkcs11configLABEL_DEVICE_CERTIFICATE_FOR_TLS cfg) \<longrightarrow>
            PKCS11_PAL_FindObject cfg pLabel usLength w = (eAwsDeviceCertificate, w)) \<and>
         (points_to pLabel (pkcs11configLABEL_DEVICE_PRIVATE_KEY_FOR_TLS cfg) \<longrightarrow>
            PKCS11_PAL_FindObject cfg pLabel usLength w = (eAwsDevicePrivateKey, w)) \<and>
         (points_to pLabel (pkcs11configLABEL_DEVICE_PUBLIC_KEY_FOR_TLS cfg) \<longrightarrow>
            PKCS11_PAL_FindObject cfg pLabel usLength w = (eAwsDevicePublicKey, w)) \<and>
         (points_to pLabel (pkcs11configLABEL_CODE_VERIFICATION_KEY cfg) \<longrightarrow>
            PKCS11_PAL_FindObject cfg pLabel usLength w = (eAwsCodeSigningKey, w)) \<and>
         (\<not> points_to pLabel (pkcs11configLABEL_DEVICE_CERTIFICATE_FOR_TLS cfg) \<and>
          \<not> points_to pLabel (pkcs11configLABEL_DEVICE_PRIVATE_KEY_FOR_TLS cfg) \<and>
          \<not> points_to pLabel (pkcs11configLABEL_DEVICE_PUBLIC_KEY_FOR_TLS cfg) \<and>
          \<not> points_to pLabel (pkcs11configLABEL_CODE_VERIFICATION_KEY cfg) \<longrightarrow>
            PKCS11_PAL_FindObject cfg pLabel usLength w = (eInvalidHandle, w)) \<and>
         eAwsDeviceCertificate \<noteq> eInvalidHandle \<and> eAwsDevicePrivateKey \<noteq> eInvalidHandle \<and>
         eAwsDevicePublicKey \<noteq> eInvalidHandle \<and> eAwsCodeSigningKey \<noteq> eInvalidHandle"
proof -
  let ?c = "pkcs11configLABEL_DEVICE_CERTIFICATE_FOR_TLS cfg"
  let ?k = "pkcs11configLABEL_DEVICE_PRIVATE_KEY_FOR_TLS cfg"
  let ?p = "pkcs11configLABEL_DEVICE_PUBLIC_KEY_FOR_TLS cfg"
  let ?v = "pkcs11configLABEL_CODE_VERIFICATION_KEY cfg"
  have excl: "\<not> (points_to pLabel a \<and> points_to pLabel b)"
    if "a \<in> {?c, ?k, ?p, ?v}" "b \<in> {?c, ?k, ?p, ?v}" "a \<noteq> b" for a b
    using that wf points_to_unique [of pLabel a b] by (auto simp: labels_wf_def)
  have d: "?c \<noteq> ?k" "?c \<noteq> ?p" "?c \<noteq> ?v" "?k \<noteq> ?p" "?k \<noteq> ?v" "?p \<noteq> ?v"
    using wf by (auto simp: labels_wf_def)
  have 1: "points_to pLabel ?k \<Longrightarrow> \<not> points_to pLabel ?c"
    using excl [of ?c ?k] d by auto
  have 2: "points_to pLabel ?p \<Longrightarrow> \<not> points_to pLabel ?c \<and> \<not> points_to pLabel ?k"
    using excl [of ?c ?p] excl [of ?k ?p] d by auto
  have 3: "points_to pLabel ?v \<Longrightarrow>
      \<not> points_to pLabel ?c \<and> \<not> points_to pLabel ?k \<and> \<not> points_to pLabel ?p"
    using excl [of ?c ?v] excl [of ?k ?v] excl [of ?p ?v] d by auto
  show ?thesis
    using 1 2 3
    by (auto simp: FindObject_points_to eAwsDeviceCertificate_def eAwsDevicePrivateKey_def
        eAwsDevicePublicKey_def eAwsCodeSigningKey_def eInvalidHandle_def)
qed


theorem FindObject_table_witness:
  "PKCS11_PAL_FindObject example_config (label_ptr ''0xE0E8'') 7 (world0 ()) =
     (eAwsDeviceCertificate, world0 ()) \<and>
   PKCS11_PAL_FindObject example_config (label_ptr ''0xE0F0'') 7 (world0 ()) =
     (eAwsDevicePrivateKey, world0 ()) \<and>
   PKCS11_PAL_FindObject example_config (label_ptr ''0xF1D0'') 7 (world0 ()) =
     (eAwsDevicePublicKey, world0 ()) \<and>
   PKCS11_PAL_FindObject example_config (label_ptr ''0xE0EF'') 7 (world0 ()) =
     (eAwsCodeSigningKey, world0 ()) \<and>
   PKCS11_PAL_FindObject example_config (label_ptr ''0xABCD'') 7 (world0 ()) =
     (eInvalidHandle, world0 ())"
proof -
  note T = FindObject_table [OF example_config_wf]
  have c: "points_to (label_ptr ''0xE0E8'') (pkcs11configLABEL_DEVICE_CERTIFICATE_FOR_TLS example_config)"
    and k: "points_to (label_ptr ''0xE0F0'') (pkcs11configLABEL_DEVICE_PRIVATE_KEY_FOR_TLS example_config)"
    and p: "points_to (label_ptr ''0xF1D0'') (pkcs11configLABEL_DEVICE_PUBLIC_KEY_FOR_TLS example_config)"
    and v: "points_to (label_ptr ''0xE0EF'') (pkcs11configLABEL_CODE_VERIFICATION_KEY example_config)"
    by (simp_all add: example_config_def points_to_label_ptr)
  have n: "\<not> points_to (label_ptr ''0xABCD'') (pkcs11configLABEL_DEVICE_CERTIFICATE_FOR_TLS example_config)"
    "\<not> points_to (label_ptr ''0xABCD'') (pkcs11configLABEL_DEVICE_PRIVATE_KEY_FOR_TLS example_config)"
    "\<not> points_to (label_ptr ''0xABCD'') (pkcs11configLABEL_DEVICE_PUBLIC_KEY_FOR_TLS example_config)"
    "\<not> points_to (label_ptr ''0xABCD'') (pkcs11configLABEL_CODE_VERIFICATION_KEY example_config)"
    by code_simp+
  from T [of "label_ptr ''0xE0E8''" 7 "world0 ()"] c
  have 1: "PKCS11_PAL_FindObject example_config (label_ptr ''0xE0E8'') 7 (world0 ()) =
      (eAwsDeviceCertificate, world0 ())" by blast
  from T [of "label_ptr ''0xE0F0''" 7 "world0 ()"] k
  have 2: "PKCS11_PAL_FindObject example_config (label_ptr ''0xE0F0'') 7 (world0 ()) =
      (eAwsDevicePrivateKey, world0 ())" by blast
  from T [of "label_ptr ''0xF1D0''" 7 "world0 ()"] p
  have 3: "PKCS11_PAL_FindObject example_config (label_ptr ''0xF1D0'') 7 (world0 ()) =
      (eAwsDevicePublicKey, world0 ())" by blast
  from T [of "label_ptr ''0xE0EF''" 7 "world0 ()"] v
  have 4: "PKCS11_PAL_FindObject example_config (label_ptr ''0xE0EF'') 7 (world0 ()) =
      (eAwsCodeSigningKey, world0 ())" by blast
  from T [of "label_ptr ''0xABCD''" 7 "world0 ()"] n
  have 5: "PKCS11_PAL_FindObject example_config (label_ptr ''0xABCD'') 7 (world0 ()) =
      (eInvalidHandle, world0 ())" by blast
  from 1 2 3 4 5 show ?thesis by blast
qed

text \<open>C9. The handle \<open>PKCS11_PAL_FindObject\<close> returns does not depend on the length
  argument: for one label pointer, any two lengths give the same result.\<close>

theorem FindObject_length_irrelevant:
  "PKCS11_PAL_FindObject cfg pLabel l1 w = PKCS11_PAL_FindObject cfg pLabel l2 w"
  by (simp add: PKCS11_PAL_FindObject_def)

subsection \<open>SaveObject\<close>

text \<open>C4. Whatever the label, a payload size above 2048 makes \<open>PKCS11_PAL_SaveObject\<close>
  return \<open>eInvalidHandle\<close> with the world as it was: no command is sent to the secure
  element.\<close>

theorem SaveObject_too_large:
  "2048 < unat ulDataSize \<Longrightarrow>
   PKCS11_PAL_SaveObject u cfg pxLabel pucData ulDataSize w = (eInvalidHandle, w)"
  by (simp add: PKCS11_PAL_SaveObject_def pkcs11OBJECT_CERTIFICATE_MAX_SIZE_def word_le_nat_alt)


theorem SaveObject_too_large_witness:
  "PKCS11_PAL_SaveObject store_device example_config (label_attr ''0xE0E8'') (replicate 2049 7) 2049
     (world0 Map.empty) = (eInvalidHandle, world0 Map.empty)"
proof -
  have "2048 < unat (2049 :: uint32_t)" by simp
  then show ?thesis by (rule SaveObject_too_large)
qed

text \<open>C2, as the code has it. With four different configured labels and a pointer to
  the private key label, \<open>PKCS11_PAL_SaveObject\<close> returns \<open>eAwsDevicePrivateKey\<close>, which is
  not \<open>eInvalidHandle\<close>, when the payload size is at most 2048, and \<open>eInvalidHandle\<close> when
  it is larger; in both cases the world is returned as it was, so no write and no read is
  sent to the secure element.\<close>

theorem SaveObject_private_key:
  assumes wf: "labels_wf cfg"
    and lbl: "points_to (pValue pxLabel) (pkcs11configLABEL_DEVICE_PRIVATE_KEY_FOR_TLS cfg)"
  shows "PKCS11_PAL_SaveObject u cfg pxLabel pucData ulDataSize w =
           (if unat ulDataSize \<le> 2048 then eAwsDevicePrivateKey else eInvalidHandle, w) \<and>
         eAwsDevicePrivateKey \<noteq> eInvalidHandle"
proof -
  have "\<not> points_to (pValue pxLabel) (pkcs11configLABEL_DEVICE_CERTIFICATE_FOR_TLS cfg)"
    using wf lbl points_to_unique [of "pValue pxLabel"
        "pkcs11configLABEL_DEVICE_CERTIFICATE_FOR_TLS cfg" "pkcs11configLABEL_DEVICE_PRIVATE_KEY_FOR_TLS cfg"]
    by (auto simp: labels_wf_def)
  with lbl show ?thesis
    by (simp add: SaveObject_points_to pkcs11OBJECT_CERTIFICATE_MAX_SIZE_def word_le_nat_alt
        eAwsDevicePrivateKey_def eInvalidHandle_def)
qed

theorem SaveObject_private_key_witness:
  "PKCS11_PAL_SaveObject store_device example_config (label_attr ''0xE0F0'') [1, 2, 3] 3
     (world0 Map.empty) = (eAwsDevicePrivateKey, world0 Map.empty)"
proof -
  have lbl: "points_to (pValue (label_attr ''0xE0F0''))
      (pkcs11configLABEL_DEVICE_PRIVATE_KEY_FOR_TLS example_config)"
    by (simp add: label_attr_def example_config_def points_to_label_ptr)
  from SaveObject_private_key [OF example_config_wf lbl, of store_device "[1, 2, 3]" 3 "world0 Map.empty"]
  show ?thesis by simp
qed

text \<open>The claim as stated fails for a payload of 2049 bytes under the private key label:
  the size guard comes first and the result is \<open>eInvalidHandle\<close>.\<close>

theorem SaveObject_private_key_counterexample:
  "points_to (pValue (label_attr ''0xE0F0''))
     (pkcs11configLABEL_DEVICE_PRIVATE_KEY_FOR_TLS example_config) \<and>
   PKCS11_PAL_SaveObject store_device example_config (label_attr ''0xE0F0'') (replicate 2049 0) 2049
     (world0 Map.empty) = (eInvalidHandle, world0 Map.empty) \<and>
   eInvalidHandle \<noteq> eAwsDevicePrivateKey"
  by (simp add: PKCS11_PAL_SaveObject_def pkcs11OBJECT_CERTIFICATE_MAX_SIZE_def eInvalidHandle_def
      eAwsDevicePrivateKey_def label_attr_def example_config_def points_to_label_ptr)

text \<open>C7. The certificate branch and the public key branch do not apply the same bound.
  With a label that parses to \<^verbatim>\<open>0xFFFF\<close>, nonzero and within 16 bits, and a payload of
  3 bytes, the certificate branch sends no write and returns \<open>eInvalidHandle\<close>, while the
  public key branch sends the write and returns \<open>eAwsDevicePublicKey\<close>.\<close>

theorem SaveObject_bounds_differ:
  "strtol ''0xFFFF'' 16 = 65535 \<and>
   PKCS11_PAL_SaveObject store_device config_certificate_ffff (label_attr ''0xFFFF'') [1, 2, 3] 3
     (world0 Map.empty) = (eInvalidHandle, world0 Map.empty) \<and>
   fst (PKCS11_PAL_SaveObject store_device config_public_key_ffff (label_attr ''0xFFFF'') [1, 2, 3] 3
     (world0 Map.empty)) = eAwsDevicePublicKey \<and>
   issued (snd (PKCS11_PAL_SaveObject store_device config_public_key_ffff (label_attr ''0xFFFF'')
     [1, 2, 3] 3 (world0 Map.empty))) =
     [Write_cmd 0xFFFF OPTIGA_UTIL_ERASE_AND_WRITE 0 [1, 2, 3] 3 OPTIGA_LIB_SUCCESS]"
  by (simp add: SaveObject_points_to config_certificate_ffff_def config_public_key_ffff_def
      example_config_def label_attr_def points_to_label_ptr ffff_not_configured strtol_ffff
      USHRT_MAX_def pkcs11OBJECT_CERTIFICATE_MAX_SIZE_def optiga_util_write_data_def
      store_device_def world0_def)

subsection \<open>GetObjectValue\<close>

text \<open>C10. \<open>PKCS11_PAL_GetObjectValue\<close> leaves \<open>CK_FALSE\<close> in the \<open>pIsPrivate\<close> output for
  every handle, every allocator result and every behaviour of the secure element: the
  cell is written first and no path writes it again.\<close>

theorem GetObjectValue_isPrivate:
  "pIsPrivate (fst (snd (PKCS11_PAL_GetObjectValue u cfg pvPortMalloc xHandle w))) = CK_FALSE"
  by (simp add: PKCS11_PAL_GetObjectValue_def Let_def split: prod.splits option.splits)


text \<open>C8. When the allocator returns null for one of the three readable handles,
  \<open>PKCS11_PAL_GetObjectValue\<close> sends no read, returns \<open>CKR_OK\<close>, and leaves the data pointer
  null and the length 1200.\<close>

theorem GetObjectValue_malloc_null:
  "pvPortMalloc 1200 = None \<Longrightarrow>
   xHandle = eAwsDeviceCertificate \<or> xHandle = eAwsDevicePublicKey \<or> xHandle = eAwsCodeSigningKey \<Longrightarrow>
   PKCS11_PAL_GetObjectValue u cfg pvPortMalloc xHandle w =
     (CKR_OK, \<lparr>ppucData = None, pulDataSize = 1200, pIsPrivate = CK_FALSE\<rparr>, w)"
  by (auto simp: PKCS11_PAL_GetObjectValue_def Let_def)

theorem GetObjectValue_malloc_null_witness:
  "PKCS11_PAL_GetObjectValue store_device example_config (\<lambda>n. None) eAwsDeviceCertificate
     (world0 Map.empty) =
   (CKR_OK, \<lparr>ppucData = None, pulDataSize = 1200, pIsPrivate = CK_FALSE\<rparr>, world0 Map.empty)"
  by (rule GetObjectValue_malloc_null) simp_all

text \<open>C5. For the private key handle, and for a handle outside the enumeration, with an
  allocator that succeeds: \<open>PKCS11_PAL_GetObjectValue\<close> returns
  \<open>CKR_KEY_HANDLE_INVALID\<close> and sends no read, but the data pointer it leaves behind is the
  freshly allocated block of 1200 bytes and the length is 1200.\<close>

theorem GetObjectValue_invalid_handle_keeps_buffer:
  "PKCS11_PAL_GetObjectValue store_device example_config (\<lambda>n. Some (replicate n 0))
     eAwsDevicePrivateKey (world0 Map.empty) =
     (CKR_KEY_HANDLE_INVALID,
      \<lparr>ppucData = Some (replicate 1200 0), pulDataSize = 1200, pIsPrivate = CK_FALSE\<rparr>,
      world0 Map.empty) \<and>
   PKCS11_PAL_GetObjectValue store_device example_config (\<lambda>n. Some (replicate n 0))
     17 (world0 Map.empty) =
     (CKR_KEY_HANDLE_INVALID,
      \<lparr>ppucData = Some (replicate 1200 0), pulDataSize = 1200, pIsPrivate = CK_FALSE\<rparr>,
      world0 Map.empty)"
  by (simp add: PKCS11_PAL_GetObjectValue_def eAwsDevicePrivateKey_def eAwsDeviceCertificate_def
      eAwsDevicePublicKey_def eAwsCodeSigningKey_def)

subsection \<open>Failures of the secure element\<close>

text \<open>C6. A nonzero status of the secure element is never reported as success. If
  \<open>PKCS11_PAL_SaveObject\<close> sent a write that returned a nonzero status, it returns
  \<open>eInvalidHandle\<close>. If \<open>PKCS11_PAL_GetObjectValue\<close> sent a read that returned a nonzero
  status, it returns \<open>CKR_KEY_HANDLE_INVALID\<close>, which is not \<open>CKR_OK\<close>, with a null data
  pointer and length 0.\<close>

theorem device_failure_surfaces:
  assumes "st \<noteq> 0"
  shows "(PKCS11_PAL_SaveObject u cfg pxLabel pucData ulDataSize w = (h, w') \<and>
          issued w' = issued w @ [Write_cmd oid mode off dat n st] \<longrightarrow> h = eInvalidHandle) \<and>
         (PKCS11_PAL_GetObjectValue u cfg pvPortMalloc xHandle w = (rv, out, w'') \<and>
          issued w'' = issued w @ [Read_cmd oid' off' n' st] \<longrightarrow>
            rv = CKR_KEY_HANDLE_INVALID \<and> rv \<noteq> CKR_OK \<and> ppucData out = None \<and>
            pulDataSize out = 0)"
proof (rule conjI; rule impI)
  assume "PKCS11_PAL_SaveObject u cfg pxLabel pucData ulDataSize w = (h, w') \<and>
      issued w' = issued w @ [Write_cmd oid mode off dat n st]"
  then show "h = eInvalidHandle"
    using assms SaveObject_write_failed [of u cfg pxLabel pucData ulDataSize w h w' oid mode off dat n st]
    by blast
next
  assume "PKCS11_PAL_GetObjectValue u cfg pvPortMalloc xHandle w = (rv, out, w'') \<and>
      issued w'' = issued w @ [Read_cmd oid' off' n' st]"
  then have "rv = CKR_KEY_HANDLE_INVALID \<and> ppucData out = None \<and> pulDataSize out = 0"
    using assms GetObjectValue_read_failed [of u cfg pvPortMalloc xHandle w rv out w'' oid' off' n' st]
    by blast
  then show "rv = CKR_KEY_HANDLE_INVALID \<and> rv \<noteq> CKR_OK \<and> ppucData out = None \<and> pulDataSize out = 0"
    by (simp add: CKR_KEY_HANDLE_INVALID_def CKR_OK_def)
qed

theorem device_failure_surfaces_witness:
  "fst (PKCS11_PAL_SaveObject failing_device example_config (label_attr ''0xE0E8'') [1, 2, 3] 3
     (world0 ())) = eInvalidHandle \<and>
   fst (PKCS11_PAL_GetObjectValue failing_device example_config (\<lambda>n. Some (replicate n 0))
     eAwsDeviceCertificate (world0 ())) = CKR_KEY_HANDLE_INVALID \<and>
   ppucData (fst (snd (PKCS11_PAL_GetObjectValue failing_device example_config
     (\<lambda>n. Some (replicate n 0)) eAwsDeviceCertificate (world0 ())))) = None"
proof -
  let ?s = "PKCS11_PAL_SaveObject failing_device example_config (label_attr ''0xE0E8'') [1, 2, 3] 3
     (world0 ())"
  let ?g = "PKCS11_PAL_GetObjectValue failing_device example_config (\<lambda>n. Some (replicate n 0))
     eAwsDeviceCertificate (world0 ())"
  have st: "(1 :: optiga_lib_status_t) \<noteq> 0"
    by simp
  note T = device_failure_surfaces [OF st]
  have s: "?s = (fst ?s, snd ?s)"
    by simp
  have si: "issued (snd ?s) =
      issued (world0 ()) @ [Write_cmd 0xE0E8 OPTIGA_UTIL_ERASE_AND_WRITE 0 [1, 2, 3] 3 1]"
    unfolding save_certificate_failing_device by (simp add: world0_def)
  have g: "?g = (fst ?g, fst (snd ?g), snd (snd ?g))"
    by simp
  have gi: "issued (snd (snd ?g)) = issued (world0 ()) @ [Read_cmd 0xE0E8 0 1200 1]"
    unfolding get_certificate_failing_device by (simp add: world0_def)
  from T [THEN conjunct1, rule_format, OF conjI [OF s si]]
  have 1: "fst ?s = eInvalidHandle" .
  from T [THEN conjunct2, rule_format, OF conjI [OF g gi]]
  have 2: "fst ?g = CKR_KEY_HANDLE_INVALID \<and> ppucData (fst (snd ?g)) = None"
    by simp
  from 1 2 show ?thesis by simp
qed

subsection \<open>Save, then read\<close>

text \<open>C1, as the code has it. On a secure element that reads back what was last
  written, let \<open>PKCS11_PAL_SaveObject\<close> return \<open>eAwsDeviceCertificate\<close> for a payload of
  \<open>ulDataSize\<close> bytes, and let the allocation of the 1200-byte buffer in the next call
  succeed. Then \<open>PKCS11_PAL_GetObjectValue\<close> on \<open>eAwsDeviceCertificate\<close> returns \<open>CKR_OK\<close>
  with \<open>pIsPrivate = CK_FALSE\<close>, and the bytes it returns are the payload cut to the 1200
  bytes of the read buffer: all of it when it has at most 1200 bytes.\<close>

theorem SaveObject_GetObjectValue_roundtrip:
  assumes dev: "reads_back_last_write u"
    and save: "PKCS11_PAL_SaveObject u cfg pxLabel pucData ulDataSize w = (eAwsDeviceCertificate, w')"
    and alloc: "pvPortMalloc 1200 = Some buf"
  shows "\<exists>buf' len w''.
           PKCS11_PAL_GetObjectValue u cfg pvPortMalloc eAwsDeviceCertificate w' =
             (CKR_OK, \<lparr>ppucData = Some buf', pulDataSize = len, pIsPrivate = CK_FALSE\<rparr>, w'') \<and>
           unat len = min 1200 (length (take (unat ulDataSize) pucData)) \<and>
           take (unat len) buf' = take 1200 (take (unat ulDataSize) pucData)"
proof -
  define oid where "oid = strtol (pkcs11configLABEL_DEVICE_CERTIFICATE_FOR_TLS cfg) 16"
  define p where "p = take (unat ulDataSize) pucData"
  define k where "k = min 1200 (length p)"
  have cap: "unat (1200 :: uint32_t) = 1200"
    by simp
  from SaveObject_certificateD [OF save]
  have oid: "0 \<noteq> oid" "USHRT_MAX > oid"
    and wr: "write_data u (device w) (word_of_int oid) OPTIGA_UTIL_ERASE_AND_WRITE 0 pucData ulDataSize
               = (OPTIGA_LIB_SUCCESS, device w')"
    by (simp_all add: oid_def)
  from dev wr obtain buf' d'' where
    r1: "read_data u (device w') (word_of_int oid) 0 buf 1200 =
       (OPTIGA_LIB_SUCCESS, buf',
        of_nat (min (unat (1200 :: uint32_t)) (length (take (unat ulDataSize) pucData))), d'')"
    and r2: "take (min (unat (1200 :: uint32_t)) (length (take (unat ulDataSize) pucData))) buf' =
         take (unat (1200 :: uint32_t)) (take (unat ulDataSize) pucData)"
    unfolding reads_back_last_write_def by blast
  have rd: "read_data u (device w') (word_of_int oid) 0 buf 1200 =
       (OPTIGA_LIB_SUCCESS, buf', of_nat k, d'')"
    using r1 unfolding cap k_def p_def .
  have eq: "take k buf' = take 1200 p"
    using r2 unfolding cap k_def p_def .
  have "k < 2 ^ 32"
    unfolding k_def by (rule le_less_trans [OF min.cobounded1]) simp
  then have ulen: "unat (of_nat k :: uint32_t) = k"
    by (simp add: unat_of_nat take_bit_nat_eq_self)
  have get: "PKCS11_PAL_GetObjectValue u cfg pvPortMalloc eAwsDeviceCertificate w' =
      (CKR_OK, \<lparr>ppucData = Some buf', pulDataSize = of_nat k, pIsPrivate = CK_FALSE\<rparr>,
       \<lparr>device = d'', issued = issued w' @ [Read_cmd (word_of_int oid) 0 1200 OPTIGA_LIB_SUCCESS]\<rparr>)"
    using oid rd alloc
    by (simp add: PKCS11_PAL_GetObjectValue_def optiga_util_read_data_def oid_def)
  have a: "unat (of_nat k :: uint32_t) = min 1200 (length p)"
    using ulen by (simp only: k_def)
  have b: "take (unat (of_nat k :: uint32_t)) buf' = take 1200 p"
    using eq by (simp only: ulen)
  from get a b show ?thesis
    unfolding p_def by blast
qed

theorem SaveObject_GetObjectValue_roundtrip_witness:
  "\<exists>buf' len w''.
     PKCS11_PAL_GetObjectValue store_device example_config (\<lambda>n. Some (replicate n 0))
       eAwsDeviceCertificate
       (snd (PKCS11_PAL_SaveObject store_device example_config (label_attr ''0xE0E8'') [1, 2, 3] 3
          (world0 Map.empty))) =
       (CKR_OK, \<lparr>ppucData = Some buf', pulDataSize = len, pIsPrivate = CK_FALSE\<rparr>, w'') \<and>
     unat len = 3 \<and> take (unat len) buf' = [1, 2, 3]"
proof -
  let ?s = "PKCS11_PAL_SaveObject store_device example_config (label_attr ''0xE0E8'') [1, 2, 3] 3
     (world0 Map.empty)"
  have save: "?s = (eAwsDeviceCertificate, snd ?s)"
    by (simp add: save_certificate_store_device)
  have m: "min 1200 (length (take (unat (3 :: uint32_t)) [1, 2, 3 :: uint8_t])) = 3"
    by simp
  have t: "take 1200 (take (unat (3 :: uint32_t)) [1, 2, 3 :: uint8_t]) = [1, 2, 3]"
    by simp
  from SaveObject_GetObjectValue_roundtrip
    [where pvPortMalloc = "\<lambda>n. Some (replicate n 0)" and buf = "replicate 1200 0",
      OF store_device_reads_back save refl]
  show ?thesis unfolding m t .
qed

text \<open>Without the allocation the claim fails: after a successful save of three bytes
  under the certificate label, on a secure element that reads back what was written, a
  call whose allocation returns null sends no read and returns \<open>CKR_OK\<close> with a null data
  pointer and length 1200, not the three bytes.\<close>

theorem SaveObject_GetObjectValue_roundtrip_counterexample:
  "reads_back_last_write store_device \<and>
   fst (PKCS11_PAL_SaveObject store_device example_config (label_attr ''0xE0E8'') [1, 2, 3] 3
     (world0 Map.empty)) = eAwsDeviceCertificate \<and>
   PKCS11_PAL_GetObjectValue store_device example_config (\<lambda>n. None) eAwsDeviceCertificate
     (snd (PKCS11_PAL_SaveObject store_device example_config (label_attr ''0xE0E8'') [1, 2, 3] 3
        (world0 Map.empty))) =
     (CKR_OK, \<lparr>ppucData = None, pulDataSize = 1200, pIsPrivate = CK_FALSE\<rparr>,
      snd (PKCS11_PAL_SaveObject store_device example_config (label_attr ''0xE0E8'') [1, 2, 3] 3
        (world0 Map.empty)))"
proof -
  have "PKCS11_PAL_GetObjectValue store_device example_config (\<lambda>n. None) eAwsDeviceCertificate w =
      (CKR_OK, \<lparr>ppucData = None, pulDataSize = 1200, pIsPrivate = CK_FALSE\<rparr>, w)" for w
    by (simp add: PKCS11_PAL_GetObjectValue_def)
  then show ?thesis
    by (simp add: store_device_reads_back save_certificate_store_device)
qed

end
